theory Spec2Isabelle
  imports Main "HOL-Library.Word"
begin

section \<open>The Emmet completion provider of the Nova plug-in\<close>

text \<open>
  A shallow embedding of \<^verbatim>\<open>src/autocomplete/provider.ts\<close>: the completion assistant
  that tracks an abbreviation while it is typed and offers its expansion as the single
  completion candidate.

  JavaScript strings are sequences of UTF-16 code units, document positions are numbers.
  Everything the provider imports from other modules (the abbreviation context resolver,
  the Emmet \<^verbatim>\<open>extract\<close> and \<^verbatim>\<open>expand\<close> functions, the output options, the syntax
  classification, the tracking gate) is a parameter of the model, collected in the
  record \<open>env\<close>. Timing and console output have no effect on the result and are left out;
  \<^verbatim>\<open>handleChange\<close> and \<^verbatim>\<open>handleSelectionChange\<close> are the tracker module's own functions,
  passed on unchanged.
\<close>

subsection \<open>Strings, positions and the host editor\<close>

type_synonym jschar = "16 word"
type_synonym jsstring = "jschar list"

definition js :: "string \<Rightarrow> jsstring" where
  "js s = map of_char s"

text \<open>The negative-index \<^verbatim>\<open>slice(-n)\<close>: the last \<open>n\<close> code units, the whole string when
  it is shorter (the truncating subtraction is JavaScript's clamp to index 0).\<close>

definition slice_last :: "nat \<Rightarrow> jsstring \<Rightarrow> jsstring" where
  "slice_last n s = drop (length s - n) s"

datatype error = InvalidAbbreviation | RangeError

type_synonym nova_range = "int \<times> int"

record editor =
  surface :: nat
  document :: jsstring
  tabText :: jsstring

text \<open>
  The host's \<^verbatim>\<open>new Range(start, end)\<close> raises when the end precedes the start, and
  \<^verbatim>\<open>getTextInRange\<close> raises when the range is not inside the document; this is why the
  provider clamps its one-character lookahead with \<^verbatim>\<open>Math.min(pos + 1, document.length)\<close>.
\<close>

definition new_Range :: "int \<Rightarrow> int \<Rightarrow> error + nova_range" where
  "new_Range start end = (if end < start then Inl RangeError else Inr (start, end))"

definition getTextInRange :: "editor \<Rightarrow> nova_range \<Rightarrow> error + jsstring" where
  "getTextInRange ed r =
     (if 0 \<le> fst r \<and> fst r \<le> snd r \<and> snd r \<le> int (length (document ed))
      then Inr (take (nat (snd r) - nat (fst r)) (drop (nat (fst r)) (document ed)))
      else Inl RangeError)"

text \<open>Modelled from the spec: \<^verbatim>\<open>toRange\<close> of \<^verbatim>\<open>utils\<close> is not among the sources; the
  candidate's target range is the Tracked Range, so it builds the host range with the pair's
  two offsets.\<close>

definition toRange :: "int \<times> int \<Rightarrow> error + nova_range" where
  "toRange r = new_Range (fst r) (snd r)"

subsection \<open>Configuration, activation context, tracker, candidate\<close>

datatype syntax_type = Markup | Stylesheet

datatype abbreviation_context = AbbreviationContext jsstring "(jsstring \<times> jsstring) list"

text \<open>An options object maps option keys to values; \<^verbatim>\<open>output.field\<close> holds a function
  of the field index and its placeholder.\<close>

datatype opt_value =
    OStr jsstring
  | OBool bool
  | ONum int
  | OField "int \<Rightarrow> jsstring \<Rightarrow> jsstring"

type_synonym options = "string \<rightharpoonup> opt_value"

record user_config =
  cfg_type :: syntax_type
  cfg_syntax :: jsstring
  cfg_context :: "abbreviation_context option"
  cfg_options :: options

record activation_context =
  ac_syntax :: jsstring
  ac_context :: "abbreviation_context option"
  ac_inline :: bool

text \<open>\<^verbatim>\<open>type EmmetTracker = Tracker & ActivationContext & { options }\<close>: the tracker's
  range, the fields of the activation context, and the output options.\<close>

record emmet_tracker = activation_context +
  tr_range :: "int \<times> int"
  tr_options :: options

datatype completion_reason = Invoke | Character

record completion_context =
  position :: int
  line :: jsstring
  reason :: completion_reason

datatype completion_item_kind = Expression

record completion_item =
  label :: jsstring
  kind :: completion_item_kind
  tokenize :: bool
  item_range :: nova_range
  insertText :: jsstring
  detail :: jsstring
  documentation :: jsstring

record extracted =
  ex_abbreviation :: jsstring
  ex_start :: int
  ex_end :: int

text \<open>The collaborators imported from other modules (\<open>extract_abbr\<close> is Emmet's
  \<^verbatim>\<open>extract\<close>). \<open>expand\<close> returns \<open>None\<close> where the
  Emmet engine throws on an invalid abbreviation; the others return \<open>None\<close> on a miss.\<close>

record env =
  getAbbreviationContext :: "editor \<Rightarrow> int \<Rightarrow> activation_context option"
  extract_abbr :: "editor \<Rightarrow> int \<Rightarrow> user_config \<Rightarrow> extracted option"
  expand :: "jsstring \<Rightarrow> user_config \<Rightarrow> jsstring option"
  getOutputOptions :: "editor \<Rightarrow> bool \<Rightarrow> options"
  getSyntaxType :: "jsstring \<Rightarrow> syntax_type"
  allowTracking :: "editor \<Rightarrow> bool"

subsection \<open>The tracker module\<close>

text \<open>
  The state holds the registered trackers, keyed by editing surface, and a log of the
  calls made to \<^verbatim>\<open>startTracking\<close> and \<^verbatim>\<open>stopTracking\<close>; the log is only observed by
  the theorems.
\<close>

datatype call = StartTracking nat int int | StopTracking nat

record state =
  trackers :: "(nat \<times> emmet_tracker) list"
  calls :: "call list"

definition init :: state where
  "init = \<lparr>trackers = [], calls = []\<rparr>"

text \<open>Modelled from the spec: \<^verbatim>\<open>getTracker\<close> of the tracker module is not among the
  sources; it returns the live Tracker of the surface, or absent.\<close>

definition getTracker :: "state \<Rightarrow> editor \<Rightarrow> emmet_tracker option" where
  "getTracker s ed = map_of (trackers s) (surface ed)"

text \<open>Modelled from the spec: \<^verbatim>\<open>startTracking\<close> of the tracker module is not among the
  sources; it creates and registers the single live Tracker of the surface over
  \<open>[start, end)\<close>, replacing the one the surface already has. The provider merges the
  activation context and the output options into the registered object with
  \<^verbatim>\<open>Object.assign\<close> in the same statement, so the registered record carries them.\<close>

definition startTracking ::
  "state \<Rightarrow> editor \<Rightarrow> int \<Rightarrow> int \<Rightarrow> activation_context \<Rightarrow> options \<Rightarrow> emmet_tracker \<times> state" where
  "startTracking s ed start end abbrCtx opts =
     (let tracker = \<lparr>ac_syntax = ac_syntax abbrCtx, ac_context = ac_context abbrCtx,
                      ac_inline = ac_inline abbrCtx, tr_range = (start, end), tr_options = opts\<rparr>
      in (tracker,
          \<lparr>trackers = (surface ed, tracker) # filter (\<lambda>e. fst e \<noteq> surface ed) (trackers s),
           calls = calls s @ [StartTracking (surface ed) start end]\<rparr>))"

text \<open>Modelled from the spec: \<^verbatim>\<open>stopTracking\<close> of the tracker module is not among the
  sources; it disposes the live Tracker of the surface, if any.\<close>

definition stopTracking :: "state \<Rightarrow> editor \<Rightarrow> state" where
  "stopTracking s ed =
     \<lparr>trackers = filter (\<lambda>e. fst e \<noteq> surface ed) (trackers s),
      calls = calls s @ [StopTracking (surface ed)]\<rparr>"

subsection \<open>The trigger pattern\<close>

text \<open>
  The regular expression \<^verbatim>\<open>/^[\s>]?[a-zA-Z.#\[\(]$/\<close> is a sequence of two character
  classes, the first optional, anchored at both ends. A class is a list of items; a pattern
  is a list of pieces, matched against the whole string with backtracking.
\<close>

datatype cls_item = Space | Lit jschar | Rng jschar jschar

datatype piece = One "cls_item list" | Optional "cls_item list"

text \<open>\<^verbatim>\<open>\s\<close> in JavaScript: the white space and line terminator code units.\<close>

definition is_space :: "jschar \<Rightarrow> bool" where
  "is_space c \<longleftrightarrow>
     c \<in> {0x09, 0x0A, 0x0B, 0x0C, 0x0D, 0x20, 0xA0, 0x1680, 0x2028, 0x2029, 0x202F, 0x205F,
          0x3000, 0xFEFF} \<or> (0x2000 \<le> c \<and> c \<le> 0x200A)"

fun in_item :: "jschar \<Rightarrow> cls_item \<Rightarrow> bool" where
  "in_item c Space = is_space c"
| "in_item c (Lit d) = (c = d)"
| "in_item c (Rng lo hi) = (lo \<le> c \<and> c \<le> hi)"

definition in_class :: "cls_item list \<Rightarrow> jschar \<Rightarrow> bool" where
  "in_class cl c = list_ex (in_item c) cl"

fun matches :: "piece list \<Rightarrow> jsstring \<Rightarrow> bool" where
  "matches [] s = (s = [])"
| "matches (One cl # ps) [] = False"
| "matches (One cl # ps) (c # cs) = (in_class cl c \<and> matches ps cs)"
| "matches (Optional cl # ps) [] = matches ps []"
| "matches (Optional cl # ps) (c # cs) = ((in_class cl c \<and> matches ps cs) \<or> matches ps (c # cs))"

definition trigger_pattern :: "piece list" where
  "trigger_pattern =
     [Optional [Space, Lit 0x3E],
      One [Rng 0x61 0x7A, Rng 0x41 0x5A, Lit 0x2E, Lit 0x23, Lit 0x5B, Lit 0x28]]"

definition pairs :: "(jsstring \<times> jsstring) list" where
  "pairs = [([0x7B], [0x7D]), ([0x5B], [0x5D]), ([0x28], [0x29])]"

subsection \<open>The provider\<close>

definition getConfig :: "env \<Rightarrow> editor \<Rightarrow> 'a activation_context_scheme \<Rightarrow> user_config" where
  "getConfig e ed abbrCtx =
     \<lparr>cfg_type = getSyntaxType e (ac_syntax abbrCtx),
      cfg_syntax = ac_syntax abbrCtx,
      cfg_context = ac_context abbrCtx,
      cfg_options = getOutputOptions e ed (ac_inline abbrCtx)\<rparr>"

definition previewField :: "int \<Rightarrow> jsstring \<Rightarrow> jsstring" where
  "previewField index placeholder = placeholder"

definition getPreviewConfig :: "'a user_config_scheme \<Rightarrow> 'a user_config_scheme" where
  "getPreviewConfig config =
     config\<lparr>cfg_options :=
       (cfg_options config)(''output.field'' \<mapsto> OField previewField,
                            ''output.indent'' \<mapsto> OStr (js ''  ''),
                            ''output.baseIndent'' \<mapsto> OStr (js ''''))\<rparr>"

definition startAbbreviationTracking ::
  "env \<Rightarrow> state \<Rightarrow> editor \<Rightarrow> completion_context \<Rightarrow> error + (emmet_tracker option \<times> state)" where
  "startAbbreviationTracking e s ed ctx =
     (let prefix = slice_last 2 (line ctx);
          pos = position ctx
      in if matches trigger_pattern prefix then
           (case getAbbreviationContext e ed pos of
              None \<Rightarrow> Inr (None, s)
            | Some abbrCtx \<Rightarrow>
                let start = pos - 1;
                    lastCh = slice_last 1 prefix
                in (case (case map_of pairs lastCh of
                            None \<Rightarrow> Inr pos
                          | Some closer \<Rightarrow>
                              (case new_Range pos (min (pos + 1) (int (length (document ed)))) of
                                 Inl err \<Rightarrow> Inl err
                               | Inr nextCharRange \<Rightarrow>
                                   (case getTextInRange ed nextCharRange of
                                      Inl err \<Rightarrow> Inl err
                                    | Inr txt \<Rightarrow> Inr (if txt = closer then pos + 1 else pos)))) of
                      Inl err \<Rightarrow> Inl err
                    | Inr end \<Rightarrow>
                        (case startTracking s ed start end abbrCtx
                                (getOutputOptions e ed (ac_inline abbrCtx)) of
                           (tracker, s') \<Rightarrow> Inr (Some tracker, s'))))
         else Inr (None, s))"

definition extractAbbreviationTracking ::
  "env \<Rightarrow> state \<Rightarrow> editor \<Rightarrow> completion_context \<Rightarrow> emmet_tracker option \<times> state" where
  "extractAbbreviationTracking e s ed ctx =
     (let pos = position ctx
      in case getAbbreviationContext e ed pos of
           None \<Rightarrow> (None, s)
         | Some abbrCtx \<Rightarrow>
             let config = getConfig e ed abbrCtx
             in (case extract_abbr e ed pos config of
                   None \<Rightarrow> (None, s)
                 | Some abbr \<Rightarrow>
                     (case startTracking s ed (ex_start abbr) (ex_end abbr) abbrCtx
                             (getOutputOptions e ed (ac_inline abbrCtx)) of
                        (tracker, s') \<Rightarrow> (Some tracker, s'))))"

definition createExpandAbbreviationCompletion ::
  "env \<Rightarrow> editor \<Rightarrow> emmet_tracker \<Rightarrow> user_config \<Rightarrow> error + completion_item" where
  "createExpandAbbreviationCompletion e ed tracker config =
     (case toRange (tr_range tracker) of
        Inl err \<Rightarrow> Inl err
      | Inr abbrRange \<Rightarrow>
          (case getTextInRange ed abbrRange of
             Inl err \<Rightarrow> Inl err
           | Inr abbr \<Rightarrow>
               (case expand e abbr config of
                  None \<Rightarrow> Inl InvalidAbbreviation
                | Some snippet \<Rightarrow>
                    (case expand e abbr (getPreviewConfig config) of
                       None \<Rightarrow> Inl InvalidAbbreviation
                     | Some preview \<Rightarrow>
                         Inr \<lparr>label = abbr, kind = Expression, tokenize = True,
                              item_range = abbrRange, insertText = snippet,
                              detail = js ''Emmet'', documentation = preview\<rparr>))))"

text \<open>The first half of \<^verbatim>\<open>provideCompletionItems\<close>: the live tracker is reused; without
  one, an explicit invocation extracts an abbreviation and an implicit request, when
  tracking is allowed, tests the trigger.\<close>

definition acquireTracker ::
  "env \<Rightarrow> state \<Rightarrow> editor \<Rightarrow> completion_context \<Rightarrow> error + (emmet_tracker option \<times> state)" where
  "acquireTracker e s ed ctx =
     (case getTracker s ed of
        Some tracker \<Rightarrow> Inr (Some tracker, s)
      | None \<Rightarrow>
          if reason ctx = Invoke then Inr (extractAbbreviationTracking e s ed ctx)
          else if allowTracking e ed then startAbbreviationTracking e s ed ctx
          else Inr (None, s))"

text \<open>The request: an exception of the candidate's construction is caught and decides
  whether the tracker is disposed; an exception outside the \<^verbatim>\<open>try\<close> block reaches the
  host.\<close>

definition provideCompletionItems ::
  "env \<Rightarrow> state \<Rightarrow> editor \<Rightarrow> completion_context \<Rightarrow> error + (completion_item list \<times> state)" where
  "provideCompletionItems e s ed ctx =
     (case acquireTracker e s ed ctx of
        Inl err \<Rightarrow> Inl err
      | Inr (None, s1) \<Rightarrow> Inr ([], s1)
      | Inr (Some tracker, s1) \<Rightarrow>
          let config = getConfig e ed tracker
          in (case createExpandAbbreviationCompletion e ed tracker config of
                Inr item \<Rightarrow> Inr ([item], s1)
              | Inl err \<Rightarrow>
                  if position ctx = snd (tr_range tracker)
                  then Inr ([], stopTracking s1 ed)
                  else Inr ([], s1)))"

subsection \<open>The notions of the specification\<close>

text \<open>
  The trigger in the specification's words: the last character of the line before the
  caret is a letter, \<open>.\<close>, \<open>#\<close>, \<open>[\<close> or \<open>(\<close>, and the character before it, when the
  line has one, is white space or \<open>>\<close>.
\<close>

definition abbr_start :: "jschar \<Rightarrow> bool" where
  "abbr_start c \<longleftrightarrow>
     (0x61 \<le> c \<and> c \<le> 0x7A) \<or> (0x41 \<le> c \<and> c \<le> 0x5A)
     \<or> c = 0x2E \<or> c = 0x23 \<or> c = 0x5B \<or> c = 0x28"

definition boundary :: "jschar \<Rightarrow> bool" where
  "boundary c \<longleftrightarrow> is_space c \<or> c = 0x3E"

definition trigger_spec :: "jsstring \<Rightarrow> bool" where
  "trigger_spec ln =
     (case rev ln of
        [] \<Rightarrow> False
      | [c] \<Rightarrow> abbr_start c
      | c # b # _ \<Rightarrow> boundary b \<and> abbr_start c)"

text \<open>The document character immediately after the caret, absent at the end of the
  document.\<close>

definition char_after :: "editor \<Rightarrow> int \<Rightarrow> jschar option" where
  "char_after ed pos =
     (if 0 \<le> pos \<and> pos < int (length (document ed)) then Some (document ed ! nat pos) else None)"

text \<open>What the clamped one-character lookahead reads at a position of the document, and
  the end of the range the implicit start then chooses.\<close>

definition lookahead_text :: "editor \<Rightarrow> int \<Rightarrow> jsstring" where
  "lookahead_text ed pos = (case char_after ed pos of None \<Rightarrow> [] | Some c \<Rightarrow> [c])"

definition implicit_end :: "editor \<Rightarrow> completion_context \<Rightarrow> int" where
  "implicit_end ed ctx =
     (case map_of pairs [last (line ctx)] of
        None \<Rightarrow> position ctx
      | Some closer \<Rightarrow>
          if lookahead_text ed (position ctx) = closer then position ctx + 1 else position ctx)"

text \<open>The live trackers of one editing surface.\<close>

definition live_trackers :: "state \<Rightarrow> nat \<Rightarrow> (nat \<times> emmet_tracker) list" where
  "live_trackers s k = filter (\<lambda>p. fst p = k) (trackers s)"

text \<open>
  A sequence of completion requests, each with the editor as it is at that moment. An
  exception reaches the host only from the lookahead of the implicit start, before the
  tracker module is called: the state is then the one before the request.
\<close>

fun run :: "env \<Rightarrow> state \<Rightarrow> (editor \<times> completion_context) list \<Rightarrow> state" where
  "run e s [] = s"
| "run e s ((ed, ctx) # reqs) =
     (case provideCompletionItems e s ed ctx of
        Inl err \<Rightarrow> run e s reqs
      | Inr (items, s') \<Rightarrow> run e s' reqs)"

subsection \<open>Sample collaborators and requests\<close>

text \<open>
  A small world to run the provider in: every position from 1 on has an HTML activation
  context; an abbreviation is a chain of names made of letters, joined by the child
  operator \<open>>\<close>, and expands to the nested elements around one field, anything else is
  invalid; the output options take the indentation from the editor.
\<close>

definition html_ctx :: activation_context where
  "html_ctx = \<lparr>ac_syntax = js ''html'', ac_context = None, ac_inline = False\<rparr>"

definition is_letter :: "jschar \<Rightarrow> bool" where
  "is_letter c \<longleftrightarrow> (0x61 \<le> c \<and> c \<le> 0x7A) \<or> (0x41 \<le> c \<and> c \<le> 0x5A)"

definition tabstop_field :: "int \<Rightarrow> jsstring \<Rightarrow> jsstring" where
  "tabstop_field index placeholder = js ''${'' @ placeholder @ js ''}''"

definition render_field :: "user_config \<Rightarrow> jsstring" where
  "render_field config =
     (case cfg_options config ''output.field'' of
        Some (OField f) \<Rightarrow> f 1 (js ''text'')
      | _ \<Rightarrow> [])"

fun split_children :: "jsstring \<Rightarrow> jsstring list" where
  "split_children [] = [[]]"
| "split_children (c # cs) =
     (if c = 0x3E then [] # split_children cs
      else (case split_children cs of [] \<Rightarrow> [[c]] | p # ps \<Rightarrow> (c # p) # ps))"

fun nest :: "jsstring list \<Rightarrow> jsstring \<Rightarrow> jsstring" where
  "nest [] inner = inner"
| "nest (n # ns) inner = js ''<'' @ n @ js ''>'' @ nest ns inner @ js ''</'' @ n @ js ''>''"

definition valid_name :: "jsstring \<Rightarrow> bool" where
  "valid_name n \<longleftrightarrow> n \<noteq> [] \<and> list_all is_letter n"

definition sample_env :: env where
  "sample_env =
     \<lparr>getAbbreviationContext = (\<lambda>ed pos. if 0 < pos then Some html_ctx else None),
      extract_abbr = (\<lambda>ed pos config.
         if 0 < pos \<and> pos \<le> int (length (document ed)) \<and> is_letter (document ed ! nat (pos - 1))
         then Some \<lparr>ex_abbreviation = [document ed ! nat (pos - 1)], ex_start = pos - 1, ex_end = pos\<rparr>
         else None),
      expand = (\<lambda>abbr config.
         if list_all valid_name (split_children abbr)
         then Some (nest (split_children abbr) (render_field config))
         else None),
      getOutputOptions = (\<lambda>ed inline.
         [''output.field'' \<mapsto> OField tabstop_field,
          ''output.indent'' \<mapsto> OStr (tabText ed),
          ''output.inlineBreak'' \<mapsto> ONum (if inline then 0 else 3)]),
      getSyntaxType = (\<lambda>syn. if syn = js ''css'' then Stylesheet else Markup),
      allowTracking = (\<lambda>ed. True)\<rparr>"

definition sample_editor :: "string \<Rightarrow> editor" where
  "sample_editor txt = \<lparr>surface = 0, document = js txt, tabText = js ''    ''\<rparr>"

definition sample_tracker :: "int \<Rightarrow> int \<Rightarrow> emmet_tracker" where
  "sample_tracker start end =
     \<lparr>ac_syntax = js ''html'', ac_context = None, ac_inline = False,
      tr_range = (start, end),
      tr_options = getOutputOptions sample_env (sample_editor []) False\<rparr>"

definition tracking :: "int \<Rightarrow> int \<Rightarrow> state" where
  "tracking start end = \<lparr>trackers = [(0, sample_tracker start end)], calls = []\<rparr>"

section \<open>Properties\<close>

subsection \<open>Auxiliary facts\<close>

lemma matches_trigger_one: "matches trigger_pattern [c] = abbr_start c"
  by (simp add: trigger_pattern_def in_class_def abbr_start_def)

lemma matches_trigger_two: "matches trigger_pattern [b, c] = (boundary b \<and> abbr_start c)"
  by (auto simp add: trigger_pattern_def in_class_def abbr_start_def boundary_def)

lemma matches_trigger_nil: "matches trigger_pattern [] = False"
  by (simp add: trigger_pattern_def)

lemma slice_last_2_cases:
  "slice_last 2 ln = (case rev ln of [] \<Rightarrow> [] | [c] \<Rightarrow> [c] | c # b # _ \<Rightarrow> [b, c])"
proof (cases "rev ln")
  case Nil
  then show ?thesis by (simp add: slice_last_def)
next
  case (Cons c r)
  note c = this
  show ?thesis
  proof (cases r)
    case Nil
    with c have "ln = [c]" by (metis rev_rev_ident rev_singleton_conv)
    then show ?thesis by (simp add: slice_last_def)
  next
    case (Cons b r')
    with c have "ln = rev r' @ [b, c]" by (metis rev.simps rev_rev_ident append_assoc append_Cons append_Nil)
    then show ?thesis by (simp add: slice_last_def)
  qed
qed

lemma trigger_refines: "matches trigger_pattern (slice_last 2 ln) = trigger_spec ln"
  by (simp add: slice_last_2_cases trigger_spec_def matches_trigger_one matches_trigger_two matches_trigger_nil split: list.splits)

lemma slice_last_1_of_2: "ln \<noteq> [] \<Longrightarrow> slice_last 1 (slice_last 2 ln) = [last ln]"
  by (cases ln rule: rev_cases) (auto simp add: slice_last_2_cases slice_last_def split: list.splits)

lemma trigger_spec_nonempty: "trigger_spec ln \<Longrightarrow> ln \<noteq> []"
  by (auto simp add: trigger_spec_def)

lemma lookahead:
  assumes "0 \<le> pos" "pos \<le> int (length (document ed))"
  shows "new_Range pos (min (pos + 1) (int (length (document ed)))) = Inr (pos, min (pos + 1) (int (length (document ed))))"
    and "getTextInRange ed (pos, min (pos + 1) (int (length (document ed)))) =
           Inr (case char_after ed pos of None \<Rightarrow> [] | Some c \<Rightarrow> [c])"
proof -
  show "new_Range pos (min (pos + 1) (int (length (document ed)))) = Inr (pos, min (pos + 1) (int (length (document ed))))"
    using assms by (simp add: new_Range_def)
  show "getTextInRange ed (pos, min (pos + 1) (int (length (document ed)))) =
           Inr (case char_after ed pos of None \<Rightarrow> [] | Some c \<Rightarrow> [c])"
  proof (cases "pos < int (length (document ed))")
    case True
    then have m: "min (pos + 1) (int (length (document ed))) = pos + 1" by simp
    have n: "nat (pos + 1) - nat pos = 1" using assms by simp
    have "take 1 (drop (nat pos) (document ed)) = [document ed ! nat pos]"
      using True assms by (simp add: take_Suc_conv_app_nth Cons_nth_drop_Suc[symmetric])
    then show ?thesis using True assms by (simp add: getTextInRange_def m n char_after_def)
  next
    case False
    then have "pos = int (length (document ed))" using assms by simp
    then show ?thesis by (simp add: getTextInRange_def char_after_def)
  qed
qed

lemma start_no_trigger:
  "\<not> trigger_spec (line ctx) \<Longrightarrow> startAbbreviationTracking e s ed ctx = Inr (None, s)"
  by (simp add: startAbbreviationTracking_def trigger_refines)

lemma start_no_context:
  "getAbbreviationContext e ed (position ctx) = None \<Longrightarrow>
   startAbbreviationTracking e s ed ctx = Inr (None, s)"
  by (simp add: startAbbreviationTracking_def Let_def)

lemma start_tracks:
  assumes trig: "trigger_spec (line ctx)"
    and actx: "getAbbreviationContext e ed (position ctx) = Some abbrCtx"
    and lo: "0 \<le> position ctx"
    and hi: "position ctx \<le> int (length (document ed))"
  shows "startAbbreviationTracking e s ed ctx =
           Inr (Some (fst (startTracking s ed (position ctx - 1) (implicit_end ed ctx) abbrCtx
                            (getOutputOptions e ed (ac_inline abbrCtx)))),
                snd (startTracking s ed (position ctx - 1) (implicit_end ed ctx) abbrCtx
                            (getOutputOptions e ed (ac_inline abbrCtx))))"
proof -
  have ne: "line ctx \<noteq> []" using trig by (rule trigger_spec_nonempty)
  have m: "matches trigger_pattern (slice_last 2 (line ctx))" using trig by (simp add: trigger_refines)
  have l: "slice_last 1 (slice_last 2 (line ctx)) = [last (line ctx)]" using ne by (rule slice_last_1_of_2)
  show ?thesis
  proof (cases "map_of pairs [last (line ctx)]")
    case None
    then show ?thesis
      using m actx l by (simp add: startAbbreviationTracking_def implicit_end_def Let_def split: prod.splits)
  next
    case (Some closer)
    then show ?thesis
      using m actx l lookahead[OF lo hi]
      by (simp add: startAbbreviationTracking_def implicit_end_def lookahead_text_def Let_def split: prod.splits)
  qed
qed

lemma start_error: "startAbbreviationTracking e s ed ctx = Inl err \<Longrightarrow> err = RangeError"
  by (auto simp add: startAbbreviationTracking_def new_Range_def getTextInRange_def Let_def
      split: if_splits option.splits sum.splits prod.splits)

lemma start_result:
  assumes "startAbbreviationTracking e s ed ctx = Inr (Some t, s')"
  shows "trigger_spec (line ctx) \<and> (\<exists>abbrCtx end. getAbbreviationContext e ed (position ctx) = Some abbrCtx
           \<and> startTracking s ed (position ctx - 1) end abbrCtx (getOutputOptions e ed (ac_inline abbrCtx)) = (t, s'))"
  using assms
  by (auto simp add: startAbbreviationTracking_def trigger_refines Let_def
      split: if_splits option.splits sum.splits prod.splits)

lemma start_in_bounds:
  assumes "startAbbreviationTracking e s ed ctx = Inr (Some t, s')"
    and "map_of pairs [last (line ctx)] \<noteq> None"
  shows "0 \<le> position ctx \<and> position ctx \<le> int (length (document ed))"
proof -
  have trig: "trigger_spec (line ctx)" using assms(1) start_result by blast
  have ne: "line ctx \<noteq> []" using trig by (rule trigger_spec_nonempty)
  have l: "slice_last 1 (slice_last 2 (line ctx)) = [last (line ctx)]" using ne by (rule slice_last_1_of_2)
  show ?thesis using assms l
    by (auto simp add: startAbbreviationTracking_def trigger_refines Let_def new_Range_def getTextInRange_def
      split: if_splits option.splits sum.splits prod.splits)
qed

lemma getTracker_startTracking:
  "startTracking s ed start end abbrCtx opts = (t, s') \<Longrightarrow> getTracker s' ed = Some t"
  by (auto simp add: startTracking_def getTracker_def Let_def)

lemma range_startTracking:
  "startTracking s ed start end abbrCtx opts = (t, s') \<Longrightarrow> tr_range t = (start, end)"
  by (auto simp add: startTracking_def Let_def)


lemma start_range:
  assumes r: "startAbbreviationTracking e s ed ctx = Inr (Some t, s')"
  shows "tr_range t = (position ctx - 1, implicit_end ed ctx)"
proof -
  have trig: "trigger_spec (line ctx)" using r start_result by blast
  have ne: "line ctx \<noteq> []" using trig by (rule trigger_spec_nonempty)
  have l: "slice_last 1 (slice_last 2 (line ctx)) = [last (line ctx)]" using ne by (rule slice_last_1_of_2)
  show ?thesis
  proof (cases "map_of pairs [last (line ctx)]")
    case None
    then show ?thesis using r l
      by (auto simp add: startAbbreviationTracking_def implicit_end_def startTracking_def Let_def
          split: if_splits option.splits)
  next
    case (Some closer)
    then have b: "0 \<le> position ctx \<and> position ctx \<le> int (length (document ed))"
      using start_in_bounds[OF r] by simp
    from start_result[OF r] obtain abbrCtx where
      a: "getAbbreviationContext e ed (position ctx) = Some abbrCtx" by blast
    from start_tracks[OF trig a] b r
    have "t = fst (startTracking s ed (position ctx - 1) (implicit_end ed ctx) abbrCtx
                    (getOutputOptions e ed (ac_inline abbrCtx)))" by simp
    then show ?thesis by (simp add: startTracking_def Let_def)
  qed
qed

lemma acquire_live: "getTracker s ed = Some t \<Longrightarrow> acquireTracker e s ed ctx = Inr (Some t, s)"
  by (simp add: acquireTracker_def)

lemma provide_with_tracker:
  "acquireTracker e s ed ctx = Inr (Some t, s1) \<Longrightarrow>
   provideCompletionItems e s ed ctx =
     (case createExpandAbbreviationCompletion e ed t (getConfig e ed t) of
        Inr item \<Rightarrow> Inr ([item], s1)
      | Inl err \<Rightarrow> if position ctx = snd (tr_range t) then Inr ([], stopTracking s1 ed)
                   else Inr ([], s1))"
  by (simp add: provideCompletionItems_def)

lemma provide_without_tracker:
  "acquireTracker e s ed ctx = Inr (None, s1) \<Longrightarrow> provideCompletionItems e s ed ctx = Inr ([], s1)"
  by (simp add: provideCompletionItems_def)

lemma create_on_text:
  assumes "getTextInRange ed (tr_range t) = Inr A"
  shows "createExpandAbbreviationCompletion e ed t config =
           (case expand e A config of
              None \<Rightarrow> Inl InvalidAbbreviation
            | Some snippet \<Rightarrow>
                (case expand e A (getPreviewConfig config) of
                   None \<Rightarrow> Inl InvalidAbbreviation
                 | Some preview \<Rightarrow>
                     Inr \<lparr>label = A, kind = Expression, tokenize = True,
                          item_range = tr_range t, insertText = snippet,
                          detail = js ''Emmet'', documentation = preview\<rparr>))"
proof -
  have "\<not> snd (tr_range t) < fst (tr_range t)"
    using assms by (auto simp add: getTextInRange_def split: if_splits)
  then have "toRange (tr_range t) = Inr (tr_range t)"
    by (simp add: toRange_def new_Range_def)
  then show ?thesis using assms
    by (simp add: createExpandAbbreviationCompletion_def)
qed

lemma getTracker_stopTracking: "getTracker (stopTracking s ed) ed = None"
  by (auto simp add: getTracker_def stopTracking_def map_of_eq_None_iff)

lemma live_startTracking:
  assumes "startTracking s ed start en abbrCtx opts = (t, s')"
    and "length (live_trackers s k) \<le> 1"
  shows "length (live_trackers s' k) \<le> 1"
proof -
  have tr: "trackers s' = (surface ed, t) # filter (\<lambda>p. fst p \<noteq> surface ed) (trackers s)"
    using assms(1) by (auto simp add: startTracking_def Let_def)
  show ?thesis
  proof (cases "k = surface ed")
    case True
    have "filter (\<lambda>p. fst p = k) (filter (\<lambda>p. fst p \<noteq> k) (trackers s)) = []"
      by (simp add: filter_empty_conv)
    then show ?thesis using True by (simp add: live_trackers_def tr)
  next
    case False
    have "filter (\<lambda>p. fst p = k) (filter (\<lambda>p. fst p \<noteq> surface ed) (trackers s))
            = filter (\<lambda>p. fst p = k) (trackers s)"
      using False by (auto intro: filter_cong)
    then show ?thesis using False assms(2) by (simp add: live_trackers_def tr)
  qed
qed

lemma live_stopTracking:
  "length (live_trackers (stopTracking s ed) k) \<le> length (live_trackers s k)"
proof -
  have "live_trackers (stopTracking s ed) k
          = filter (\<lambda>p. fst p \<noteq> surface ed) (live_trackers s k)"
    by (auto simp add: live_trackers_def stopTracking_def intro: filter_cong)
  then show ?thesis by simp
qed

lemma extract_cases:
  assumes "extractAbbreviationTracking e s ed ctx = (r, s1)"
  shows "(r = None \<and> s1 = s)
         \<or> (\<exists>abbrCtx start en t. getAbbreviationContext e ed (position ctx) = Some abbrCtx
              \<and> r = Some t
              \<and> startTracking s ed start en abbrCtx (getOutputOptions e ed (ac_inline abbrCtx)) = (t, s1))"
  using assms
  by (auto simp add: extractAbbreviationTracking_def Let_def split: option.splits prod.splits)

lemma start_cases:
  assumes "startAbbreviationTracking e s ed ctx = Inr (r, s1)"
  shows "(r = None \<and> s1 = s)
         \<or> (\<exists>abbrCtx start en t. getAbbreviationContext e ed (position ctx) = Some abbrCtx
              \<and> r = Some t
              \<and> startTracking s ed start en abbrCtx (getOutputOptions e ed (ac_inline abbrCtx)) = (t, s1))"
  using assms
  by (auto simp add: startAbbreviationTracking_def Let_def
      split: if_splits option.splits sum.splits prod.splits)

lemma acquire_cases:
  assumes "acquireTracker e s ed ctx = Inr (r, s1)"
  shows "(s1 = s \<and> r = getTracker s ed)
         \<or> (getTracker s ed = None
              \<and> (\<exists>abbrCtx start en t. getAbbreviationContext e ed (position ctx) = Some abbrCtx
                    \<and> r = Some t
                    \<and> startTracking s ed start en abbrCtx (getOutputOptions e ed (ac_inline abbrCtx)) = (t, s1)))"
proof (cases "getTracker s ed")
  case (Some t)
  then show ?thesis using assms by (auto simp add: acquireTracker_def)
next
  case None
  show ?thesis
  proof (cases "reason ctx = Invoke")
    case True
    then have x: "extractAbbreviationTracking e s ed ctx = (r, s1)"
      using assms None by (simp add: acquireTracker_def)
    from extract_cases[OF x] None show ?thesis by auto
  next
    case False
    show ?thesis
    proof (cases "allowTracking e ed")
      case True
      then have "startAbbreviationTracking e s ed ctx = Inr (r, s1)"
        using assms None False by (simp add: acquireTracker_def)
      from start_cases[OF this] None show ?thesis by auto
    next
      case nallow: False
      then show ?thesis using assms None False by (auto simp add: acquireTracker_def)
    qed
  qed
qed

lemma acquire_error: "acquireTracker e s ed ctx = Inl err \<Longrightarrow> err = RangeError"
  by (auto simp add: acquireTracker_def start_error split: option.splits if_splits)

lemma start_total:
  assumes "0 \<le> position ctx" and "position ctx \<le> int (length (document ed))"
  shows "\<exists>r. startAbbreviationTracking e s ed ctx = Inr r"
proof (cases "trigger_spec (line ctx)")
  case False
  then show ?thesis by (simp add: start_no_trigger)
next
  case True
  show ?thesis
  proof (cases "getAbbreviationContext e ed (position ctx)")
    case None
    then show ?thesis by (simp add: start_no_context)
  next
    case (Some abbrCtx)
    from start_tracks[OF True Some assms] show ?thesis by blast
  qed
qed

lemma acquire_total:
  assumes "0 \<le> position ctx" and "position ctx \<le> int (length (document ed))"
  shows "\<exists>r. acquireTracker e s ed ctx = Inr r"
  using start_total[OF assms] by (auto simp add: acquireTracker_def split: option.splits)

lemma provide_cases:
  assumes "acquireTracker e s ed ctx = Inr (r, s1)"
  shows "\<exists>items s'. provideCompletionItems e s ed ctx = Inr (items, s') \<and> length items \<le> 1
           \<and> (s' = s1 \<or> (s' = stopTracking s1 ed \<and> items = []))"
proof (cases r)
  case None
  then show ?thesis using assms by (simp add: provide_without_tracker)
next
  case (Some t)
  then show ?thesis using assms
    by (auto simp add: provide_with_tracker split: sum.splits)
qed

lemma provide_error: "provideCompletionItems e s ed ctx = Inl err \<Longrightarrow> err = RangeError"
proof (cases "acquireTracker e s ed ctx")
  case (Inl a)
  assume "provideCompletionItems e s ed ctx = Inl err"
  then have "a = err" using Inl by (simp add: provideCompletionItems_def)
  then show ?thesis using Inl acquire_error by blast
next
  case (Inr b)
  assume p: "provideCompletionItems e s ed ctx = Inl err"
  obtain r s1 where "b = (r, s1)" by (cases b)
  from provide_cases[of e s ed ctx r s1] Inr this p show ?thesis by auto
qed

lemma provide_live_trackers:
  assumes "provideCompletionItems e s ed ctx = Inr (items, s')"
    and "length (live_trackers s k) \<le> 1"
  shows "length (live_trackers s' k) \<le> 1"
proof -
  obtain r s1 where a: "acquireTracker e s ed ctx = Inr (r, s1)"
    using assms(1) by (cases "acquireTracker e s ed ctx") (auto simp add: provideCompletionItems_def)
  have s1: "length (live_trackers s1 k) \<le> 1"
    using acquire_cases[OF a] assms(2) live_startTracking by blast
  from provide_cases[OF a] assms(1) have "s' = s1 \<or> s' = stopTracking s1 ed" by auto
  then show ?thesis using s1 live_stopTracking[of s1 ed k] by auto
qed

lemma run_live_trackers:
  "length (live_trackers s k) \<le> 1 \<Longrightarrow> length (live_trackers (run e s reqs) k) \<le> 1"
proof (induction reqs arbitrary: s)
  case Nil
  then show ?case by simp
next
  case (Cons req reqs)
  obtain ed ctx where req: "req = (ed, ctx)" by (cases req)
  show ?case
  proof (cases "provideCompletionItems e s ed ctx")
    case (Inl err)
    then show ?thesis using Cons req by simp
  next
    case (Inr b)
    obtain items s' where b: "b = (items, s')" by (cases b)
    have "length (live_trackers s' k) \<le> 1"
      using provide_live_trackers Inr b Cons.prems by blast
    then show ?thesis using Cons.IH Inr b req by simp
  qed
qed

subsection \<open>Disposal of the tracker\<close>

text \<open>
  C1 (disposal exactness). A request finds a live tracker whose tracked text fails to
  expand, under the normal or the preview configuration. If the request's position equals
  the end of the tracked range, the tracker is disposed: \<open>stopTracking\<close> runs and a
  subsequent \<open>getTracker\<close> returns absent. If the position differs from the end, the
  state is the one before the request, so the tracker is still the live one, unchanged.
  In both cases the request returns no candidate.
\<close>

theorem disposal_exactness:
  assumes "getTracker s ed = Some t"
    and "getTextInRange ed (tr_range t) = Inr A"
    and "expand e A (getConfig e ed t) = None
         \<or> expand e A (getPreviewConfig (getConfig e ed t)) = None"
  shows "(position ctx = snd (tr_range t) \<longrightarrow>
            provideCompletionItems e s ed ctx = Inr ([], stopTracking s ed)
            \<and> getTracker (stopTracking s ed) ed = None)
       \<and> (position ctx \<noteq> snd (tr_range t) \<longrightarrow>
            provideCompletionItems e s ed ctx = Inr ([], s) \<and> getTracker s ed = Some t)"
proof -
  have "\<exists>err. createExpandAbbreviationCompletion e ed t (getConfig e ed t) = Inl err"
    using assms(3) by (auto simp add: create_on_text[OF assms(2)] split: option.splits)
  then show ?thesis
    using assms(1)
    by (auto simp add: provide_with_tracker[OF acquire_live[OF assms(1)]] getTracker_stopTracking)
qed

theorem disposal_exactness_witness:
  "provideCompletionItems sample_env (tracking 0 1) (sample_editor ''('')
     \<lparr>position = 1, line = js ''('', reason = Character\<rparr>
     = Inr ([], stopTracking (tracking 0 1) (sample_editor ''(''))
   \<and> getTracker (stopTracking (tracking 0 1) (sample_editor ''('')) (sample_editor ''('') = None
   \<and> provideCompletionItems sample_env (tracking 0 2) (sample_editor ''p('')
        \<lparr>position = 1, line = js ''p'', reason = Character\<rparr>
        = Inr ([], tracking 0 2)"
proof -
  have live1: "getTracker (tracking 0 1) (sample_editor ''('') = Some (sample_tracker 0 1)"
    by (simp add: getTracker_def tracking_def sample_editor_def)
  have text1: "getTextInRange (sample_editor ''('') (tr_range (sample_tracker 0 1)) = Inr (js ''('')"
    by (simp add: getTextInRange_def sample_editor_def sample_tracker_def js_def)
  have fail1: "expand sample_env (js ''('')
                 (getConfig sample_env (sample_editor ''('') (sample_tracker 0 1)) = None
               \<or> expand sample_env (js ''('')
                 (getPreviewConfig (getConfig sample_env (sample_editor ''('') (sample_tracker 0 1)))
                 = None"
    by (simp add: sample_env_def js_def is_letter_def valid_name_def)
  have live2: "getTracker (tracking 0 2) (sample_editor ''p('') = Some (sample_tracker 0 2)"
    by (simp add: getTracker_def tracking_def sample_editor_def)
  have text2: "getTextInRange (sample_editor ''p('') (tr_range (sample_tracker 0 2)) = Inr (js ''p('')"
    by (simp add: getTextInRange_def sample_editor_def sample_tracker_def js_def)
  have fail2: "expand sample_env (js ''p('')
                 (getConfig sample_env (sample_editor ''p('') (sample_tracker 0 2)) = None
               \<or> expand sample_env (js ''p('')
                 (getPreviewConfig (getConfig sample_env (sample_editor ''p('') (sample_tracker 0 2)))
                 = None"
    by (simp add: sample_env_def js_def is_letter_def valid_name_def)
  show ?thesis
    using disposal_exactness[OF live1 text1 fail1,
            of "\<lparr>position = 1, line = js ''('', reason = Character\<rparr>"]
          disposal_exactness[OF live2 text2 fail2,
            of "\<lparr>position = 1, line = js ''p'', reason = Character\<rparr>"]
    by (simp add: sample_tracker_def)
qed

subsection \<open>The implicit start\<close>



text \<open>
  C3 (bracket-pairing extension). Where the trigger matches, an activation context
  resolves and the position is one of the document, the implicit start does begin
  tracking, and the tracker it registers has this range: from \<open>position - 1\<close> to
  \<open>position + 1\<close> if the triggering character, the last one of the line before the caret,
  is \<open>(\<close>, \<open>[\<close> or \<open>{\<close> and the document character immediately after the caret is
  the matching \<open>)\<close>, \<open>]\<close> or \<open>}\<close>; to the position otherwise, also with any other
  triggering character. Every start of the implicit start, wherever it happens, has a range
  with that end. (The trigger pattern does not admit \<open>{\<close>, so no start has it as
  triggering character.)
\<close>

theorem bracket_pairing_extension:
  "(trigger_spec (line ctx) \<and> getAbbreviationContext e ed (position ctx) \<noteq> None
      \<and> 0 \<le> position ctx \<and> position ctx \<le> int (length (document ed)) \<longrightarrow>
      (\<exists>t s'. startAbbreviationTracking e s ed ctx = Inr (Some t, s')
         \<and> getTracker s' ed = Some t
         \<and> fst (tr_range t) = position ctx - 1
         \<and> (\<forall>(c, d) \<in> {(0x28, 0x29), (0x5B, 0x5D), (0x7B, 0x7D)}.
               last (line ctx) = c \<longrightarrow>
               snd (tr_range t) =
                 (if char_after ed (position ctx) = Some d then position ctx + 1
                  else position ctx))
         \<and> (last (line ctx) \<notin> {0x28, 0x5B, 0x7B} \<longrightarrow> snd (tr_range t) = position ctx)))
   \<and> (\<forall>t s'. startAbbreviationTracking e s ed ctx = Inr (Some t, s') \<longrightarrow>
         (\<forall>(c, d) \<in> {(0x28, 0x29), (0x5B, 0x5D), (0x7B, 0x7D)}.
            last (line ctx) = c \<longrightarrow>
            snd (tr_range t) =
              (if char_after ed (position ctx) = Some d then position ctx + 1
               else position ctx))
         \<and> (last (line ctx) \<notin> {0x28, 0x5B, 0x7B} \<longrightarrow> snd (tr_range t) = position ctx))"
proof -
  have ends: "(\<forall>(c, d) \<in> {(0x28, 0x29), (0x5B, 0x5D), (0x7B, 0x7D)}.
                 last (line ctx) = c \<longrightarrow>
                 snd (tr_range t) =
                   (if char_after ed (position ctx) = Some d then position ctx + 1
                    else position ctx))
              \<and> (last (line ctx) \<notin> {0x28, 0x5B, 0x7B} \<longrightarrow> snd (tr_range t) = position ctx)"
    if r: "startAbbreviationTracking e s ed ctx = Inr (Some t, s')" for t s'
    using start_range[OF r]
    by (auto simp add: implicit_end_def pairs_def lookahead_text_def split: option.splits)
  have starts: "\<exists>t s'. startAbbreviationTracking e s ed ctx = Inr (Some t, s')
                  \<and> getTracker s' ed = Some t \<and> fst (tr_range t) = position ctx - 1"
    if trig: "trigger_spec (line ctx)"
      and actx: "getAbbreviationContext e ed (position ctx) \<noteq> None"
      and lo: "0 \<le> position ctx" and hi: "position ctx \<le> int (length (document ed))"
  proof -
    from actx obtain abbrCtx where a: "getAbbreviationContext e ed (position ctx) = Some abbrCtx"
      by auto
    from start_tracks[OF trig a lo hi] obtain t s' where
      r: "startAbbreviationTracking e s ed ctx = Inr (Some t, s')" by blast
    from start_result[OF r] obtain abbrCtx' en where
      st: "startTracking s ed (position ctx - 1) en abbrCtx'
             (getOutputOptions e ed (ac_inline abbrCtx')) = (t, s')"
      by blast
    have "fst (tr_range t) = position ctx - 1" using range_startTracking[OF st] by simp
    then show ?thesis using r getTracker_startTracking[OF st] by blast
  qed
  show ?thesis using ends starts by blast
qed

theorem bracket_pairing_extension_witness:
  "(\<exists>t s'. startAbbreviationTracking sample_env init (sample_editor ''<p>()'')
              \<lparr>position = 4, line = js ''<p>('', reason = Character\<rparr> = Inr (Some t, s')
            \<and> getTracker s' (sample_editor ''<p>()'') = Some t \<and> tr_range t = (3, 5))
   \<and> (\<exists>t s'. startAbbreviationTracking sample_env init (sample_editor ''<p>[x'')
              \<lparr>position = 4, line = js ''<p>['', reason = Character\<rparr> = Inr (Some t, s')
            \<and> getTracker s' (sample_editor ''<p>[x'') = Some t \<and> tr_range t = (3, 4))
   \<and> (\<exists>t s'. startAbbreviationTracking sample_env init (sample_editor ''<p>d'')
              \<lparr>position = 4, line = js ''<p>d'', reason = Character\<rparr> = Inr (Some t, s')
            \<and> getTracker s' (sample_editor ''<p>d'') = Some t \<and> tr_range t = (3, 4))"
proof -
  have paired: "trigger_spec (line \<lparr>position = 4, line = js ''<p>('', reason = Character\<rparr>)
      \<and> getAbbreviationContext sample_env (sample_editor ''<p>()'')
            (position \<lparr>position = 4, line = js ''<p>('', reason = Character\<rparr>) \<noteq> None
      \<and> 0 \<le> position \<lparr>position = 4, line = js ''<p>('', reason = Character\<rparr>
      \<and> position \<lparr>position = 4, line = js ''<p>('', reason = Character\<rparr>
            \<le> int (length (document (sample_editor ''<p>()'')))"
    by (simp add: trigger_spec_def js_def boundary_def abbr_start_def sample_env_def sample_editor_def)
  have closer: "char_after (sample_editor ''<p>()'') 4 = Some 0x29"
    by (simp add: char_after_def sample_editor_def js_def)
  have round: "last (js ''<p>('') = 0x28" by (simp add: js_def)
  from bracket_pairing_extension[of "\<lparr>position = 4, line = js ''<p>('', reason = Character\<rparr>"
         sample_env "sample_editor ''<p>()''" init] paired
  obtain t s' where
    r: "startAbbreviationTracking sample_env init (sample_editor ''<p>()'')
          \<lparr>position = 4, line = js ''<p>('', reason = Character\<rparr> = Inr (Some t, s')"
    and g: "getTracker s' (sample_editor ''<p>()'') = Some t"
    and f: "fst (tr_range t) = position \<lparr>position = 4, line = js ''<p>('', reason = Character\<rparr> - 1"
    and e: "\<forall>(c, d) \<in> {(0x28, 0x29), (0x5B, 0x5D), (0x7B, 0x7D)}.
               last (line \<lparr>position = 4, line = js ''<p>('', reason = Character\<rparr>) = c \<longrightarrow>
               snd (tr_range t) =
                 (if char_after (sample_editor ''<p>()'')
                       (position \<lparr>position = 4, line = js ''<p>('', reason = Character\<rparr>) = Some d
                  then position \<lparr>position = 4, line = js ''<p>('', reason = Character\<rparr> + 1
                  else position \<lparr>position = 4, line = js ''<p>('', reason = Character\<rparr>)"
    by blast
  from e round closer have "snd (tr_range t) = 5" by simp
  with f have "tr_range t = (3, 5)" by (simp add: prod_eq_iff)
  with r g have one: "\<exists>t s'. startAbbreviationTracking sample_env init (sample_editor ''<p>()'')
              \<lparr>position = 4, line = js ''<p>('', reason = Character\<rparr> = Inr (Some t, s')
            \<and> getTracker s' (sample_editor ''<p>()'') = Some t \<and> tr_range t = (3, 5)"
    by blast
  have unpaired: "trigger_spec (line \<lparr>position = 4, line = js ''<p>['', reason = Character\<rparr>)
      \<and> getAbbreviationContext sample_env (sample_editor ''<p>[x'')
            (position \<lparr>position = 4, line = js ''<p>['', reason = Character\<rparr>) \<noteq> None
      \<and> 0 \<le> position \<lparr>position = 4, line = js ''<p>['', reason = Character\<rparr>
      \<and> position \<lparr>position = 4, line = js ''<p>['', reason = Character\<rparr>
            \<le> int (length (document (sample_editor ''<p>[x'')))"
    by (simp add: trigger_spec_def js_def boundary_def abbr_start_def sample_env_def sample_editor_def)
  have other: "char_after (sample_editor ''<p>[x'') 4 = Some 0x78"
    by (simp add: char_after_def sample_editor_def js_def)
  have square: "last (js ''<p>['') = 0x5B" by (simp add: js_def)
  from bracket_pairing_extension[of "\<lparr>position = 4, line = js ''<p>['', reason = Character\<rparr>"
         sample_env "sample_editor ''<p>[x''" init] unpaired
  obtain t2 s2 where
    r2: "startAbbreviationTracking sample_env init (sample_editor ''<p>[x'')
          \<lparr>position = 4, line = js ''<p>['', reason = Character\<rparr> = Inr (Some t2, s2)"
    and g2: "getTracker s2 (sample_editor ''<p>[x'') = Some t2"
    and f2: "fst (tr_range t2) = position \<lparr>position = 4, line = js ''<p>['', reason = Character\<rparr> - 1"
    and e2: "\<forall>(c, d) \<in> {(0x28, 0x29), (0x5B, 0x5D), (0x7B, 0x7D)}.
               last (line \<lparr>position = 4, line = js ''<p>['', reason = Character\<rparr>) = c \<longrightarrow>
               snd (tr_range t2) =
                 (if char_after (sample_editor ''<p>[x'')
                       (position \<lparr>position = 4, line = js ''<p>['', reason = Character\<rparr>) = Some d
                  then position \<lparr>position = 4, line = js ''<p>['', reason = Character\<rparr> + 1
                  else position \<lparr>position = 4, line = js ''<p>['', reason = Character\<rparr>)"
    by blast
  from e2 square other have "snd (tr_range t2) = 4" by simp
  with f2 have "tr_range t2 = (3, 4)" by (simp add: prod_eq_iff)
  with r2 g2 have two: "\<exists>t s'. startAbbreviationTracking sample_env init (sample_editor ''<p>[x'')
              \<lparr>position = 4, line = js ''<p>['', reason = Character\<rparr> = Inr (Some t, s')
            \<and> getTracker s' (sample_editor ''<p>[x'') = Some t \<and> tr_range t = (3, 4)"
    by blast
  have plain: "trigger_spec (line \<lparr>position = 4, line = js ''<p>d'', reason = Character\<rparr>)
      \<and> getAbbreviationContext sample_env (sample_editor ''<p>d'')
            (position \<lparr>position = 4, line = js ''<p>d'', reason = Character\<rparr>) \<noteq> None
      \<and> 0 \<le> position \<lparr>position = 4, line = js ''<p>d'', reason = Character\<rparr>
      \<and> position \<lparr>position = 4, line = js ''<p>d'', reason = Character\<rparr>
            \<le> int (length (document (sample_editor ''<p>d'')))"
    by (simp add: trigger_spec_def js_def boundary_def abbr_start_def sample_env_def sample_editor_def)
  have letter: "last (js ''<p>d'') \<notin> {0x28, 0x5B, 0x7B}" by (simp add: js_def)
  from bracket_pairing_extension[of "\<lparr>position = 4, line = js ''<p>d'', reason = Character\<rparr>"
         sample_env "sample_editor ''<p>d''" init] plain
  obtain t3 s3 where
    r3: "startAbbreviationTracking sample_env init (sample_editor ''<p>d'')
          \<lparr>position = 4, line = js ''<p>d'', reason = Character\<rparr> = Inr (Some t3, s3)"
    and g3: "getTracker s3 (sample_editor ''<p>d'') = Some t3"
    and f3: "fst (tr_range t3) = position \<lparr>position = 4, line = js ''<p>d'', reason = Character\<rparr> - 1"
    and e3: "last (line \<lparr>position = 4, line = js ''<p>d'', reason = Character\<rparr>) \<notin> {0x28, 0x5B, 0x7B}
               \<longrightarrow> snd (tr_range t3)
                     = position \<lparr>position = 4, line = js ''<p>d'', reason = Character\<rparr>"
    by blast
  from e3 letter have "snd (tr_range t3) = 4" by simp
  with f3 have "tr_range t3 = (3, 4)" by (simp add: prod_eq_iff)
  with r3 g3 have three: "\<exists>t s'. startAbbreviationTracking sample_env init (sample_editor ''<p>d'')
              \<lparr>position = 4, line = js ''<p>d'', reason = Character\<rparr> = Inr (Some t, s')
            \<and> getTracker s' (sample_editor ''<p>d'') = Some t \<and> tr_range t = (3, 4)"
    by blast
  show ?thesis using one two three by blast
qed

subsection \<open>The candidate\<close>

text \<open>
  C4 (candidate fidelity). A request has a tracker, the live one or the one it has just
  started, whose tracked text \<open>A\<close> expands under the normal and under the preview
  configuration. The request returns exactly one candidate: its label is \<open>A\<close>, its
  insertion text is the expansion of \<open>A\<close> under the normal configuration, its
  documentation the expansion under the preview configuration, its tokenization flag is
  true, its target range is the tracked range and its detail is the string \<open>Emmet\<close>.
\<close>

theorem candidate_fidelity:
  assumes "acquireTracker e s ed ctx = Inr (Some t, s1)"
    and "getTextInRange ed (tr_range t) = Inr A"
    and "expand e A (getConfig e ed t) = Some snippet"
    and "expand e A (getPreviewConfig (getConfig e ed t)) = Some preview"
  shows "provideCompletionItems e s ed ctx =
           Inr ([\<lparr>label = A, kind = Expression, tokenize = True, item_range = tr_range t,
                  insertText = snippet, detail = js ''Emmet'', documentation = preview\<rparr>], s1)"
  using assms(3,4) by (simp add: provide_with_tracker[OF assms(1)] create_on_text[OF assms(2)])

theorem candidate_fidelity_witness:
  "provideCompletionItems sample_env (tracking 0 2) (sample_editor ''ul'')
     \<lparr>position = 2, line = js ''ul'', reason = Character\<rparr> =
     Inr ([\<lparr>label = js ''ul'', kind = Expression, tokenize = True, item_range = (0, 2),
            insertText = js ''<ul>${text}</ul>'', detail = js ''Emmet'',
            documentation = js ''<ul>text</ul>''\<rparr>], tracking 0 2)"
proof -
  have live: "acquireTracker sample_env (tracking 0 2) (sample_editor ''ul'')
                \<lparr>position = 2, line = js ''ul'', reason = Character\<rparr>
              = Inr (Some (sample_tracker 0 2), tracking 0 2)"
    by (simp add: acquireTracker_def getTracker_def tracking_def sample_editor_def)
  have tracked: "getTextInRange (sample_editor ''ul'') (tr_range (sample_tracker 0 2)) = Inr (js ''ul'')"
    by (simp add: getTextInRange_def sample_editor_def sample_tracker_def js_def)
  have normal: "expand sample_env (js ''ul'')
                  (getConfig sample_env (sample_editor ''ul'') (sample_tracker 0 2))
                = Some (js ''<ul>${text}</ul>'')"
    by (simp add: sample_env_def getConfig_def render_field_def tabstop_field_def js_def
        is_letter_def valid_name_def sample_tracker_def)
  have preview: "expand sample_env (js ''ul'')
                   (getPreviewConfig (getConfig sample_env (sample_editor ''ul'') (sample_tracker 0 2)))
                 = Some (js ''<ul>text</ul>'')"
    by (simp add: sample_env_def getConfig_def getPreviewConfig_def render_field_def
        previewField_def js_def is_letter_def valid_name_def sample_tracker_def)
  show ?thesis
    using candidate_fidelity[OF live tracked normal preview] by (simp add: sample_tracker_def)
qed

subsection \<open>The request as a whole\<close>

text \<open>
  C5 (never-fail propagation). No request raises an expansion failure to the host,
  whatever the tracker state and whatever the expansions do. With the collaborators
  returning absent on a miss and the request's position being a position of the document
  (the only exception that can leave the provider is the host's range error for a
  lookahead outside the document), the request returns normally with a sequence of zero
  or one candidates.
\<close>

theorem never_fail_propagation:
  "provideCompletionItems e s ed ctx \<noteq> Inl InvalidAbbreviation
   \<and> (0 \<le> position ctx \<and> position ctx \<le> int (length (document ed)) \<longrightarrow>
        (\<exists>items s'. provideCompletionItems e s ed ctx = Inr (items, s') \<and> length items \<le> 1))"
proof (intro conjI impI)
  show "provideCompletionItems e s ed ctx \<noteq> Inl InvalidAbbreviation"
    using provide_error by fastforce
next
  assume "0 \<le> position ctx \<and> position ctx \<le> int (length (document ed))"
  then obtain r s1 where "acquireTracker e s ed ctx = Inr (r, s1)"
    using acquire_total by (metis surj_pair)
  from provide_cases[OF this]
  show "\<exists>items s'. provideCompletionItems e s ed ctx = Inr (items, s') \<and> length items \<le> 1"
    by blast
qed

theorem never_fail_propagation_witness:
  "\<exists>items s'. provideCompletionItems sample_env init (sample_editor ''<p>()'')
                 \<lparr>position = 4, line = js ''<p>('', reason = Character\<rparr> = Inr (items, s')
             \<and> length items \<le> 1"
proof -
  have inside: "0 \<le> position \<lparr>position = 4, line = js ''<p>('', reason = Character\<rparr>
                \<and> position \<lparr>position = 4, line = js ''<p>('', reason = Character\<rparr>
                    \<le> int (length (document (sample_editor ''<p>()'')))"
    by (simp add: sample_editor_def js_def)
  show ?thesis
    using never_fail_propagation[of sample_env init "sample_editor ''<p>()''"
            "\<lparr>position = 4, line = js ''<p>('', reason = Character\<rparr>"] inside
    by blast
qed

text \<open>
  C6 (tracker reuse, no double tracking). When \<open>getTracker\<close> returns a live tracker for
  the surface, the request reuses it: neither the extraction nor the implicit start runs,
  and the request calls \<open>startTracking\<close> not at all (the calls it adds are none, or the
  one \<open>stopTracking\<close> of the disposal). A state with at most one live tracker per
  editing surface keeps that property through any sequence of completion requests; the
  initial state has it.
\<close>

theorem no_double_tracking:
  "(getTracker s ed = Some t \<longrightarrow>
      acquireTracker e s ed ctx = Inr (Some t, s)
      \<and> (\<exists>items s'. provideCompletionItems e s ed ctx = Inr (items, s')
            \<and> (calls s' = calls s \<or> calls s' = calls s @ [StopTracking (surface ed)])))
   \<and> ((\<forall>k. length (live_trackers s k) \<le> 1) \<longrightarrow>
         (\<forall>k. length (live_trackers (run e s reqs) k) \<le> 1))
   \<and> (\<forall>k. length (live_trackers (run e init reqs) k) \<le> 1)"
proof (intro conjI impI allI)
  assume live: "getTracker s ed = Some t"
  show a: "acquireTracker e s ed ctx = Inr (Some t, s)" using live by (rule acquire_live)
  from provide_cases[OF a]
  show "\<exists>items s'. provideCompletionItems e s ed ctx = Inr (items, s')
            \<and> (calls s' = calls s \<or> calls s' = calls s @ [StopTracking (surface ed)])"
    by (auto simp add: stopTracking_def)
next
  fix k
  assume "\<forall>k. length (live_trackers s k) \<le> 1"
  then have "length (live_trackers s k) \<le> 1" by blast
  then show "length (live_trackers (run e s reqs) k) \<le> 1" by (rule run_live_trackers)
next
  fix k
  show "length (live_trackers (run e init reqs) k) \<le> 1"
    by (rule run_live_trackers) (simp add: live_trackers_def init_def)
qed

theorem no_double_tracking_witness:
  "(\<exists>items s'. provideCompletionItems sample_env (tracking 0 1) (sample_editor ''d'')
                  \<lparr>position = 1, line = js ''d'', reason = Character\<rparr> = Inr (items, s')
              \<and> (calls s' = calls (tracking 0 1)
                   \<or> calls s' = calls (tracking 0 1) @ [StopTracking (surface (sample_editor ''d''))]))
   \<and> (\<forall>k. length (live_trackers
                    (run sample_env (tracking 0 1)
                       [(sample_editor ''d'', \<lparr>position = 1, line = js ''d'', reason = Character\<rparr>),
                        (sample_editor ''d('', \<lparr>position = 2, line = js ''d('', reason = Character\<rparr>),
                        (sample_editor ''d( p'', \<lparr>position = 4, line = js ''d( p'', reason = Character\<rparr>)])
                    k) \<le> 1)"
proof -
  have live: "getTracker (tracking 0 1) (sample_editor ''d'') = Some (sample_tracker 0 1)"
    by (simp add: getTracker_def tracking_def sample_editor_def)
  have one: "\<forall>k. length (live_trackers (tracking 0 1) k) \<le> 1"
    by (simp add: live_trackers_def tracking_def)
  show ?thesis
    using no_double_tracking[of "tracking 0 1" "sample_editor ''d''" "sample_tracker 0 1" sample_env
            "\<lparr>position = 1, line = js ''d'', reason = Character\<rparr>"
            "[(sample_editor ''d'', \<lparr>position = 1, line = js ''d'', reason = Character\<rparr>),
              (sample_editor ''d('', \<lparr>position = 2, line = js ''d('', reason = Character\<rparr>),
              (sample_editor ''d( p'', \<lparr>position = 4, line = js ''d( p'', reason = Character\<rparr>)]"]
          live one
    by blast
qed

text \<open>
  C9 (extraction miss). An explicit invocation finds no live tracker, and either no
  activation context resolves at the position or the extraction finds no abbreviation.
  Then the request returns no candidate and leaves the state as it was: no tracker is
  created, \<open>getTracker\<close> still returns absent, no call to the tracker module is made.
\<close>

theorem extraction_miss:
  assumes "getTracker s ed = None"
    and "reason ctx = Invoke"
    and "getAbbreviationContext e ed (position ctx) = None
         \<or> (\<exists>abbrCtx. getAbbreviationContext e ed (position ctx) = Some abbrCtx
              \<and> extract_abbr e ed (position ctx) (getConfig e ed abbrCtx) = None)"
  shows "\<exists>s'. provideCompletionItems e s ed ctx = Inr ([], s')
           \<and> getTracker s' ed = None \<and> calls s' = calls s \<and> trackers s' = trackers s"
proof -
  have "extractAbbreviationTracking e s ed ctx = (None, s)"
    using assms(3) by (auto simp add: extractAbbreviationTracking_def Let_def)
  then have "acquireTracker e s ed ctx = Inr (None, s)"
    using assms(1,2) by (simp add: acquireTracker_def)
  then show ?thesis using assms(1) by (simp add: provide_without_tracker)
qed

theorem extraction_miss_witness:
  "(\<exists>s'. provideCompletionItems sample_env init (sample_editor ''<p> '')
            \<lparr>position = 4, line = js ''<p> '', reason = Invoke\<rparr> = Inr ([], s')
        \<and> getTracker s' (sample_editor ''<p> '') = None \<and> calls s' = calls init
        \<and> trackers s' = trackers init)
   \<and> (\<exists>s'. provideCompletionItems sample_env init (sample_editor ''p'')
            \<lparr>position = 0, line = [], reason = Invoke\<rparr> = Inr ([], s')
        \<and> getTracker s' (sample_editor ''p'') = None \<and> calls s' = calls init
        \<and> trackers s' = trackers init)"
proof -
  have none: "getTracker init (sample_editor ''<p> '') = None"
    by (simp add: getTracker_def init_def)
  have inv: "reason \<lparr>position = 4, line = js ''<p> '', reason = Invoke\<rparr> = Invoke"
    by simp
  have miss: "getAbbreviationContext sample_env (sample_editor ''<p> '')
                (position \<lparr>position = 4, line = js ''<p> '', reason = Invoke\<rparr>) = None
              \<or> (\<exists>abbrCtx. getAbbreviationContext sample_env (sample_editor ''<p> '')
                     (position \<lparr>position = 4, line = js ''<p> '', reason = Invoke\<rparr>) = Some abbrCtx
                   \<and> extract_abbr sample_env (sample_editor ''<p> '')
                       (position \<lparr>position = 4, line = js ''<p> '', reason = Invoke\<rparr>)
                       (getConfig sample_env (sample_editor ''<p> '') abbrCtx) = None)"
    by (simp add: sample_env_def sample_editor_def js_def is_letter_def valid_name_def)
  have none': "getTracker init (sample_editor ''p'') = None"
    by (simp add: getTracker_def init_def)
  have inv': "reason \<lparr>position = 0, line = [], reason = Invoke\<rparr> = Invoke"
    by simp
  have miss': "getAbbreviationContext sample_env (sample_editor ''p'')
                (position \<lparr>position = 0, line = [], reason = Invoke\<rparr>) = None
              \<or> (\<exists>abbrCtx. getAbbreviationContext sample_env (sample_editor ''p'')
                     (position \<lparr>position = 0, line = [], reason = Invoke\<rparr>) = Some abbrCtx
                   \<and> extract_abbr sample_env (sample_editor ''p'')
                       (position \<lparr>position = 0, line = [], reason = Invoke\<rparr>)
                       (getConfig sample_env (sample_editor ''p'') abbrCtx) = None)"
    by (simp add: sample_env_def)
  show ?thesis
    using extraction_miss[OF none inv miss, of ] extraction_miss[OF none' inv' miss'] by blast
qed

text \<open>
  C10 (success preserves the tracker). A request finds a live tracker whose tracked text
  expands under both configurations. Wherever the caret is, the request returns its one
  candidate and leaves the state as it was: \<open>stopTracking\<close> is not called and the
  tracker remains the live tracker of the surface.
\<close>

theorem success_preserves_tracker:
  assumes "getTracker s ed = Some t"
    and "getTextInRange ed (tr_range t) = Inr A"
    and "expand e A (getConfig e ed t) \<noteq> None"
    and "expand e A (getPreviewConfig (getConfig e ed t)) \<noteq> None"
  shows "\<exists>item s'. provideCompletionItems e s ed ctx = Inr ([item], s')
           \<and> calls s' = calls s \<and> trackers s' = trackers s \<and> getTracker s' ed = Some t"
  using assms(1,3,4)
  by (auto simp add: provide_with_tracker[OF acquire_live[OF assms(1)]] create_on_text[OF assms(2)])

theorem success_preserves_tracker_witness:
  "\<exists>item s'. provideCompletionItems sample_env (tracking 0 2) (sample_editor ''ul'')
                \<lparr>position = 2, line = js ''ul'', reason = Character\<rparr> = Inr ([item], s')
             \<and> calls s' = calls (tracking 0 2) \<and> trackers s' = trackers (tracking 0 2)
             \<and> getTracker s' (sample_editor ''ul'') = Some (sample_tracker 0 2)"
proof -
  have live: "getTracker (tracking 0 2) (sample_editor ''ul'') = Some (sample_tracker 0 2)"
    by (simp add: getTracker_def tracking_def sample_editor_def)
  have tracked: "getTextInRange (sample_editor ''ul'') (tr_range (sample_tracker 0 2)) = Inr (js ''ul'')"
    by (simp add: getTextInRange_def sample_editor_def sample_tracker_def js_def)
  have normal: "expand sample_env (js ''ul'')
                  (getConfig sample_env (sample_editor ''ul'') (sample_tracker 0 2)) \<noteq> None"
    by (simp add: sample_env_def js_def is_letter_def valid_name_def)
  have preview: "expand sample_env (js ''ul'')
                   (getPreviewConfig (getConfig sample_env (sample_editor ''ul'') (sample_tracker 0 2)))
                 \<noteq> None"
    by (simp add: sample_env_def js_def is_letter_def valid_name_def)
  show ?thesis
    using success_preserves_tracker[OF live tracked normal preview] by blast
qed

subsection \<open>Configurations\<close>

text \<open>
  C7 (configuration stability) does not hold as stated: \<open>getConfig\<close> takes the syntax and
  the context from the tracker but asks the editor for the output options again on every
  request, and never reads the options recorded on the tracker. In the sample world the
  options carry the editor's indentation: a tracker is started, the indentation setting
  changes, and the next request builds its candidate with a configuration that differs
  from the one at the start and with options that differ from the recorded ones.
\<close>

theorem configuration_stability_counterexample:
  "startAbbreviationTracking sample_env init (sample_editor ''<p>d'')
       \<lparr>position = 4, line = js ''<p>d'', reason = Character\<rparr>
     = Inr (Some (sample_tracker 3 4),
            \<lparr>trackers = [(0, sample_tracker 3 4)], calls = [StartTracking 0 3 4]\<rparr>)
   \<and> getTracker \<lparr>trackers = [(0, sample_tracker 3 4)], calls = [StartTracking 0 3 4]\<rparr>
         ((sample_editor ''<p>di'')\<lparr>tabText := js ''  ''\<rparr>) = Some (sample_tracker 3 4)
   \<and> getConfig sample_env ((sample_editor ''<p>di'')\<lparr>tabText := js ''  ''\<rparr>) (sample_tracker 3 4)
         \<noteq> getConfig sample_env (sample_editor ''<p>d'') (sample_tracker 3 4)
   \<and> cfg_options
         (getConfig sample_env ((sample_editor ''<p>di'')\<lparr>tabText := js ''  ''\<rparr>) (sample_tracker 3 4))
         \<noteq> tr_options (sample_tracker 3 4)
   \<and> provideCompletionItems sample_env
         \<lparr>trackers = [(0, sample_tracker 3 4)], calls = [StartTracking 0 3 4]\<rparr>
         ((sample_editor ''<p>di'')\<lparr>tabText := js ''  ''\<rparr>)
         \<lparr>position = 5, line = js ''<p>di'', reason = Character\<rparr>
       = Inr ([\<lparr>label = js ''d'', kind = Expression, tokenize = True, item_range = (3, 4),
                insertText = js ''<d>${text}</d>'', detail = js ''Emmet'',
                documentation = js ''<d>text</d>''\<rparr>],
              \<lparr>trackers = [(0, sample_tracker 3 4)], calls = [StartTracking 0 3 4]\<rparr>)"
proof (intro conjI)
  have live: "acquireTracker sample_env
                \<lparr>trackers = [(0, sample_tracker 3 4)], calls = [StartTracking 0 3 4]\<rparr>
                ((sample_editor ''<p>di'')\<lparr>tabText := js ''  ''\<rparr>)
                \<lparr>position = 5, line = js ''<p>di'', reason = Character\<rparr>
              = Inr (Some (sample_tracker 3 4),
                     \<lparr>trackers = [(0, sample_tracker 3 4)], calls = [StartTracking 0 3 4]\<rparr>)"
    by (simp add: acquireTracker_def getTracker_def sample_editor_def)
  have tracked: "getTextInRange ((sample_editor ''<p>di'')\<lparr>tabText := js ''  ''\<rparr>)
                   (tr_range (sample_tracker 3 4)) = Inr (js ''d'')"
    by (simp add: getTextInRange_def sample_editor_def sample_tracker_def js_def)
  have expands: "expand sample_env (js ''d'')
                   (getConfig sample_env ((sample_editor ''<p>di'')\<lparr>tabText := js ''  ''\<rparr>)
                      (sample_tracker 3 4))
                 = Some (js ''<d>${text}</d>'')"
    by (simp add: sample_env_def getConfig_def render_field_def tabstop_field_def js_def
        is_letter_def valid_name_def sample_tracker_def)
  have previews: "expand sample_env (js ''d'')
                    (getPreviewConfig
                       (getConfig sample_env ((sample_editor ''<p>di'')\<lparr>tabText := js ''  ''\<rparr>)
                          (sample_tracker 3 4)))
                  = Some (js ''<d>text</d>'')"
    by (simp add: sample_env_def getConfig_def getPreviewConfig_def render_field_def
        previewField_def js_def is_letter_def valid_name_def sample_tracker_def)
  show "provideCompletionItems sample_env
          \<lparr>trackers = [(0, sample_tracker 3 4)], calls = [StartTracking 0 3 4]\<rparr>
          ((sample_editor ''<p>di'')\<lparr>tabText := js ''  ''\<rparr>)
          \<lparr>position = 5, line = js ''<p>di'', reason = Character\<rparr>
        = Inr ([\<lparr>label = js ''d'', kind = Expression, tokenize = True, item_range = (3, 4),
                 insertText = js ''<d>${text}</d>'', detail = js ''Emmet'',
                 documentation = js ''<d>text</d>''\<rparr>],
               \<lparr>trackers = [(0, sample_tracker 3 4)], calls = [StartTracking 0 3 4]\<rparr>)"
    unfolding provide_with_tracker[OF live] create_on_text[OF tracked] expands previews
    by (simp add: sample_tracker_def)
  show "startAbbreviationTracking sample_env init (sample_editor ''<p>d'')
          \<lparr>position = 4, line = js ''<p>d'', reason = Character\<rparr>
        = Inr (Some (sample_tracker 3 4),
               \<lparr>trackers = [(0, sample_tracker 3 4)], calls = [StartTracking 0 3 4]\<rparr>)"
    by (simp add: startAbbreviationTracking_def sample_env_def sample_editor_def js_def
        slice_last_def trigger_pattern_def in_class_def is_space_def html_ctx_def pairs_def
        startTracking_def init_def sample_tracker_def Let_def)
  show "getTracker \<lparr>trackers = [(0, sample_tracker 3 4)], calls = [StartTracking 0 3 4]\<rparr>
          ((sample_editor ''<p>di'')\<lparr>tabText := js ''  ''\<rparr>) = Some (sample_tracker 3 4)"
    by (simp add: getTracker_def sample_editor_def)
  have indent_later:
    "cfg_options
       (getConfig sample_env ((sample_editor ''<p>di'')\<lparr>tabText := js ''  ''\<rparr>) (sample_tracker 3 4))
       ''output.indent'' = Some (OStr (js ''  ''))"
    by (simp add: getConfig_def sample_env_def sample_editor_def sample_tracker_def)
  have indent_start:
    "cfg_options (getConfig sample_env (sample_editor ''<p>d'') (sample_tracker 3 4))
       ''output.indent'' = Some (OStr (js ''    ''))"
    by (simp add: getConfig_def sample_env_def sample_editor_def sample_tracker_def)
  have indent_recorded:
    "tr_options (sample_tracker 3 4) ''output.indent'' = Some (OStr (js ''    ''))"
    by (simp add: sample_env_def sample_editor_def sample_tracker_def)
  have differ: "Some (OStr (js ''  '')) \<noteq> Some (OStr (js ''    ''))"
    by (simp add: js_def)
  show "getConfig sample_env ((sample_editor ''<p>di'')\<lparr>tabText := js ''  ''\<rparr>) (sample_tracker 3 4)
          \<noteq> getConfig sample_env (sample_editor ''<p>d'') (sample_tracker 3 4)"
    using indent_later indent_start differ by metis
  show "cfg_options
          (getConfig sample_env ((sample_editor ''<p>di'')\<lparr>tabText := js ''  ''\<rparr>) (sample_tracker 3 4))
          \<noteq> tr_options (sample_tracker 3 4)"
    using indent_later indent_recorded differ by metis
qed

text \<open>
  C7, amended. For a tracker started by the implicit start or by the extraction, the
  options recorded on it are the editor's output options of that moment, and the
  configuration of any later request has the syntax kind, the syntax string and the
  context payload of the activation context resolved at the start, with the output
  options the editor gives at the time of the request. Whenever those are the options the
  editor gave at the start, the options used for the candidate are the recorded ones and
  the configuration is the one of the start.
\<close>

theorem configuration_stability:
  assumes "startAbbreviationTracking e s ed0 ctx0 = Inr (Some t, s1)
           \<or> extractAbbreviationTracking e s ed0 ctx0 = (Some t, s1)"
  shows "\<exists>abbrCtx. getAbbreviationContext e ed0 (position ctx0) = Some abbrCtx
           \<and> tr_options t = getOutputOptions e ed0 (ac_inline abbrCtx)
           \<and> (\<forall>ed. getConfig e ed t =
                  \<lparr>cfg_type = getSyntaxType e (ac_syntax abbrCtx),
                   cfg_syntax = ac_syntax abbrCtx,
                   cfg_context = ac_context abbrCtx,
                   cfg_options = getOutputOptions e ed (ac_inline abbrCtx)\<rparr>)
           \<and> (\<forall>ed. getOutputOptions e ed (ac_inline abbrCtx)
                      = getOutputOptions e ed0 (ac_inline abbrCtx) \<longrightarrow>
                  cfg_options (getConfig e ed t) = tr_options t
                  \<and> getConfig e ed t = getConfig e ed0 t)"
proof -
  from assms obtain abbrCtx start en where
    actx: "getAbbreviationContext e ed0 (position ctx0) = Some abbrCtx"
    and st: "startTracking s ed0 start en abbrCtx (getOutputOptions e ed0 (ac_inline abbrCtx)) = (t, s1)"
    using start_cases[of e s ed0 ctx0 "Some t" s1] extract_cases[of e s ed0 ctx0 "Some t" s1]
    by auto
  have t: "ac_syntax t = ac_syntax abbrCtx" "ac_context t = ac_context abbrCtx"
    "ac_inline t = ac_inline abbrCtx" "tr_options t = getOutputOptions e ed0 (ac_inline abbrCtx)"
    using st by (auto simp add: startTracking_def Let_def)
  show ?thesis
    using actx t by (simp add: getConfig_def)
qed

theorem configuration_stability_witness:
  "cfg_options (getConfig sample_env (sample_editor ''<p>di'') (sample_tracker 3 4))
     = tr_options (sample_tracker 3 4)
   \<and> getConfig sample_env (sample_editor ''<p>di'') (sample_tracker 3 4)
     = getConfig sample_env (sample_editor ''<p>d'') (sample_tracker 3 4)"
proof -
  have started: "startAbbreviationTracking sample_env init (sample_editor ''<p>d'')
                   \<lparr>position = 4, line = js ''<p>d'', reason = Character\<rparr>
                 = Inr (Some (sample_tracker 3 4),
                        \<lparr>trackers = [(0, sample_tracker 3 4)], calls = [StartTracking 0 3 4]\<rparr>)
               \<or> extractAbbreviationTracking sample_env init (sample_editor ''<p>d'')
                   \<lparr>position = 4, line = js ''<p>d'', reason = Character\<rparr>
                 = (Some (sample_tracker 3 4),
                    \<lparr>trackers = [(0, sample_tracker 3 4)], calls = [StartTracking 0 3 4]\<rparr>)"
    by (simp add: startAbbreviationTracking_def sample_env_def sample_editor_def js_def
        slice_last_def trigger_pattern_def in_class_def is_space_def html_ctx_def pairs_def
        startTracking_def init_def sample_tracker_def Let_def)
  have same: "\<And>inline. getOutputOptions sample_env (sample_editor ''<p>di'') inline
                = getOutputOptions sample_env (sample_editor ''<p>d'') inline"
    by (simp add: sample_env_def sample_editor_def)
  from configuration_stability[OF started] same show ?thesis by blast
qed

text \<open>
  C8 (preview configuration frame). The preview configuration has the type, the syntax,
  the context and every further field of the configuration it is derived from, and the
  same value for every option except three: its \<open>output.field\<close> is a renderer that
  returns the placeholder it is given, its \<open>output.indent\<close> is two spaces and its
  \<open>output.baseIndent\<close> is empty. A candidate's insertion text is the expansion under
  the configuration itself and its documentation the expansion under the preview; the
  insertion text is the same for any expansion engine that agrees on the configuration
  itself.
\<close>

theorem preview_configuration_frame:
  "cfg_type (getPreviewConfig config) = cfg_type config
   \<and> cfg_syntax (getPreviewConfig config) = cfg_syntax config
   \<and> cfg_context (getPreviewConfig config) = cfg_context config
   \<and> user_config.more (getPreviewConfig config) = user_config.more config
   \<and> (\<forall>k. k \<notin> {''output.field'', ''output.indent'', ''output.baseIndent''} \<longrightarrow>
          cfg_options (getPreviewConfig config) k = cfg_options config k)
   \<and> (\<exists>f. cfg_options (getPreviewConfig config) ''output.field'' = Some (OField f)
          \<and> (\<forall>index placeholder. f index placeholder = placeholder))
   \<and> cfg_options (getPreviewConfig config) ''output.indent'' = Some (OStr [0x20, 0x20])
   \<and> cfg_options (getPreviewConfig config) ''output.baseIndent'' = Some (OStr [])
   \<and> (\<forall>e ed t item. createExpandAbbreviationCompletion e ed t cfg = Inr item \<longrightarrow>
          (\<exists>A. getTextInRange ed (tr_range t) = Inr A
             \<and> expand e A cfg = Some (insertText item)
             \<and> expand e A (getPreviewConfig cfg) = Some (documentation item)
             \<and> (\<forall>e' item'. expand e' A cfg = expand e A cfg \<longrightarrow>
                   createExpandAbbreviationCompletion e' ed t cfg = Inr item' \<longrightarrow>
                   insertText item' = insertText item)))"
proof (intro conjI allI impI)
  show "\<exists>f. cfg_options (getPreviewConfig config) ''output.field'' = Some (OField f)
          \<and> (\<forall>index placeholder. f index placeholder = placeholder)"
    by (rule exI[of _ previewField]) (simp add: getPreviewConfig_def previewField_def)
next
  fix e ed t item
  assume c: "createExpandAbbreviationCompletion e ed t cfg = Inr item"
  then obtain A where A: "getTextInRange ed (tr_range t) = Inr A"
    by (auto simp add: createExpandAbbreviationCompletion_def toRange_def new_Range_def
        split: sum.splits if_splits)
  have "expand e A cfg = Some (insertText item)
        \<and> expand e A (getPreviewConfig cfg) = Some (documentation item)"
    using c by (auto simp add: create_on_text[OF A] split: option.splits)
  moreover have "\<forall>e' item'. expand e' A cfg = expand e A cfg \<longrightarrow>
                   createExpandAbbreviationCompletion e' ed t cfg = Inr item' \<longrightarrow>
                   insertText item' = insertText item"
    using c by (auto simp add: create_on_text[OF A] split: option.splits)
  ultimately show "\<exists>A. getTextInRange ed (tr_range t) = Inr A
             \<and> expand e A cfg = Some (insertText item)
             \<and> expand e A (getPreviewConfig cfg) = Some (documentation item)
             \<and> (\<forall>e' item'. expand e' A cfg = expand e A cfg \<longrightarrow>
                   createExpandAbbreviationCompletion e' ed t cfg = Inr item' \<longrightarrow>
                   insertText item' = insertText item)"
    using A by blast
qed (simp_all add: getPreviewConfig_def js_def)

theorem preview_configuration_frame_witness:
  "cfg_options (getPreviewConfig (getConfig sample_env (sample_editor ''ul'') (sample_tracker 0 2)))
     ''output.inlineBreak'' = Some (ONum 3)
   \<and> expand sample_env (js ''ul'')
        (getConfig sample_env (sample_editor ''ul'') (sample_tracker 0 2))
       = Some (js ''<ul>${text}</ul>'')
   \<and> expand sample_env (js ''ul'')
        (getPreviewConfig (getConfig sample_env (sample_editor ''ul'') (sample_tracker 0 2)))
       = Some (js ''<ul>text</ul>'')"
proof -
  have other: "''output.inlineBreak'' \<notin> {''output.field'', ''output.indent'', ''output.baseIndent''}"
    by simp
  have normal: "cfg_options (getConfig sample_env (sample_editor ''ul'') (sample_tracker 0 2))
                  ''output.inlineBreak'' = Some (ONum 3)"
    by (simp add: getConfig_def sample_env_def sample_tracker_def)
  have tracked: "getTextInRange (sample_editor ''ul'') (tr_range (sample_tracker 0 2)) = Inr (js ''ul'')"
    by (simp add: getTextInRange_def sample_editor_def sample_tracker_def js_def)
  have expands: "expand sample_env (js ''ul'')
                   (getConfig sample_env (sample_editor ''ul'') (sample_tracker 0 2))
                 = Some (js ''<ul>${text}</ul>'')"
    by (simp add: sample_env_def getConfig_def render_field_def tabstop_field_def js_def
        is_letter_def valid_name_def sample_tracker_def)
  have previews: "expand sample_env (js ''ul'')
                    (getPreviewConfig (getConfig sample_env (sample_editor ''ul'') (sample_tracker 0 2)))
                  = Some (js ''<ul>text</ul>'')"
    by (simp add: sample_env_def getConfig_def getPreviewConfig_def render_field_def
        previewField_def js_def is_letter_def valid_name_def sample_tracker_def)
  have built: "createExpandAbbreviationCompletion sample_env (sample_editor ''ul'') (sample_tracker 0 2)
                 (getConfig sample_env (sample_editor ''ul'') (sample_tracker 0 2))
               = Inr \<lparr>label = js ''ul'', kind = Expression, tokenize = True, item_range = (0, 2),
                      insertText = js ''<ul>${text}</ul>'', detail = js ''Emmet'',
                      documentation = js ''<ul>text</ul>''\<rparr>"
    unfolding create_on_text[OF tracked] expands previews by (simp add: sample_tracker_def)
  note frame = preview_configuration_frame
    [of "getConfig sample_env (sample_editor ''ul'') (sample_tracker 0 2)"
        "getConfig sample_env (sample_editor ''ul'') (sample_tracker 0 2)"]
  from frame
  have "\<forall>k. k \<notin> {''output.field'', ''output.indent'', ''output.baseIndent''} \<longrightarrow>
          cfg_options (getPreviewConfig (getConfig sample_env (sample_editor ''ul'') (sample_tracker 0 2))) k
          = cfg_options (getConfig sample_env (sample_editor ''ul'') (sample_tracker 0 2)) k"
    by blast
  then have one: "cfg_options
                    (getPreviewConfig (getConfig sample_env (sample_editor ''ul'') (sample_tracker 0 2)))
                    ''output.inlineBreak'' = Some (ONum 3)"
    using other normal by metis
  from frame built
  have "\<exists>A. getTextInRange (sample_editor ''ul'') (tr_range (sample_tracker 0 2)) = Inr A
          \<and> expand sample_env A (getConfig sample_env (sample_editor ''ul'') (sample_tracker 0 2))
              = Some (js ''<ul>${text}</ul>'')
          \<and> expand sample_env A
                (getPreviewConfig (getConfig sample_env (sample_editor ''ul'') (sample_tracker 0 2)))
              = Some (js ''<ul>text</ul>'')"
    by fastforce
  then have two: "expand sample_env (js ''ul'')
                    (getConfig sample_env (sample_editor ''ul'') (sample_tracker 0 2))
                   = Some (js ''<ul>${text}</ul>'')
                  \<and> expand sample_env (js ''ul'')
                    (getPreviewConfig (getConfig sample_env (sample_editor ''ul'') (sample_tracker 0 2)))
                   = Some (js ''<ul>text</ul>'')"
    using tracked by auto
  show ?thesis using one two by blast
qed

end
